theory Spec2Isabelle
  imports Main
begin

section \<open>The time-window containment check\<close>

text \<open>
  \<^verbatim>\<open>CheckTime\<close> (regular.go, lines 184-210) builds three instants with
  \<^verbatim>\<open>time.Date(0, 0, 0, hour, minute, 0, 0, time.Local)\<close> and compares them through
  \<^verbatim>\<open>Time.Sub\<close>. The three instants share year, month, day and location, so an instant
  is represented by its distance in seconds from midnight of that reference day; the
  zone offset is the same for all three and cancels in every difference. The
  representation is exact for every hour and minute that \<^verbatim>\<open>time.Date\<close> normalises
  without leaving the reference zone period, in particular for all clock values
  (hours 0-23, minutes 0-59).
\<close>

definition time_Date :: "int \<Rightarrow> int \<Rightarrow> int" where
  "time_Date hour minute = hour * 3600 + minute * 60"

text \<open>
  \<^verbatim>\<open>Time.Sub\<close> returns a \<^verbatim>\<open>time.Duration\<close>: signed 64-bit nanoseconds, saturated
  at the largest and smallest representable duration.
\<close>

definition maxDuration :: int where
  "maxDuration = 2 ^ 63 - 1"

definition minDuration :: int where
  "minDuration = - (2 ^ 63)"

definition time_Sub :: "int \<Rightarrow> int \<Rightarrow> int" where
  "time_Sub t u =
     (let d = (t - u) * 1000000000
      in if maxDuration < d then maxDuration
         else if d < minDuration then minDuration
         else d)"

text \<open>
  The named results \<^verbatim>\<open>start\<close> and \<^verbatim>\<open>end\<close> both begin as \<^verbatim>\<open>false\<close>; the pair
  returned is \<open>(start, end)\<close>. The three branches are those of the source, in its order.
\<close>

definition CheckTime :: "int \<Rightarrow> int \<Rightarrow> int \<Rightarrow> int \<Rightarrow> int \<Rightarrow> int \<Rightarrow> bool \<times> bool" where
  "CheckTime startHour startMinute endHour endMinute currentHour currentMinute =
     (let startTime = time_Date startHour startMinute;
          endTime = time_Date endHour endMinute;
          currentTime = time_Date currentHour currentMinute;
          since = time_Sub startTime endTime
      in if since = 0 then (True, False)
         else if since < 0 then
           (0 \<le> time_Sub currentTime startTime, 0 \<le> time_Sub currentTime endTime)
         else
           (let endb = (0 \<le> time_Sub currentTime endTime)
            in if 0 \<le> time_Sub currentTime startTime \<or> \<not> endb then (True, False)
               else (False, endb)))"

section \<open>Configuration and engine state\<close>

text \<open>
  Modelled from the spec: the declarations of \<^verbatim>\<open>Period\<close> and \<^verbatim>\<open>Config\<close> are in a
  file of the package that is not part of the sources at hand. regular.go reads the
  fields \<^verbatim>\<open>startHour\<close>, \<^verbatim>\<open>startMinute\<close>, \<^verbatim>\<open>endHour\<close>, \<^verbatim>\<open>endMinute\<close> of a window
  and \<^verbatim>\<open>Name\<close>, \<^verbatim>\<open>Periods\<close>, \<^verbatim>\<open>SuccessInterval\<close>, \<^verbatim>\<open>FailInterval\<close> of a Config; the
  spec adds the raw start and end strings (``HH:MM'') of a window, here \<open>Start\<close> and
  \<open>End\<close>. Both delays are signed integers in milliseconds.

  \<^verbatim>\<open>Periods\<close> holds pointers to windows. Line 67 calls \<^verbatim>\<open>Parse\<close> on the range variable
  of the loop over \<^verbatim>\<open>cfg.Periods\<close>, and line 123 reads the parsed fields from the windows
  of the installed Config; what \<^verbatim>\<open>Parse\<close> writes reaches the Config only if the elements
  of the slice are pointers. A window is therefore an object of its own, and two
  Configs, or two positions of one Config, can hold the same window.
\<close>

type_synonym ref = nat

record Period =
  Start :: string
  End :: string
  startHour :: int
  startMinute :: int
  endHour :: int
  endMinute :: int

record Config =
  Name :: string
  Periods :: "ref list"
  SuccessInterval :: int
  FailInterval :: int

text \<open>
  Errors are values. \<open>Failure\<close> is an error made outside regular.go (by
  \<^verbatim>\<open>Period.Parse\<close> or by the task); \<open>AnalysisFailed k err\<close> is
  \<^verbatim>\<open>fmt.Errorf("analysis time period %d failed: %v", k, err)\<close>; \<open>ContextErr\<close> is what
  \<^verbatim>\<open>ctx.Err()\<close> returns once the context is done. A panic is a value of its own type.
\<close>

datatype error = Failure string | AnalysisFailed nat error | ContextErr

datatype panic = NilDereference | CloseOfNilChannel | CloseOfClosedChannel

text \<open>
  The engine holds a pointer to its Config. Config objects live in a store indexed by
  address, window objects in a second one; \<open>None\<close> is the nil pointer.
  \<^verbatim>\<open>stopCh\<close> is nil, open or closed; \<^verbatim>\<open>cancel\<close> is nil or the cancel function of one
  cancellation scope. The mutex only serialises the accesses to \<^verbatim>\<open>cfg\<close> and the
  logger only prints, so neither is a field here; the logger is taken to be present,
  as \<^verbatim>\<open>NewWithLogger\<close> makes sure.
\<close>

type_synonym store = "ref \<Rightarrow> Config"

type_synonym wstore = "ref \<Rightarrow> Period"

datatype chan = NilChan | OpenChan | ClosedChan

record Engine =
  cfg :: "ref option"
  cancel :: "nat option"
  stopCh :: chan

text \<open>
  \<^verbatim>\<open>Period.Parse\<close> is not in regular.go either. It is a parameter of the model: a
  function from the window as \<^verbatim>\<open>Parse\<close> finds it to the window as it leaves it, with
  the error it returns.
\<close>

type_synonym parser = "Period \<Rightarrow> Period \<times> error option"

text \<open>
  The loop of \<^verbatim>\<open>SetConfig\<close> (lines 66-70) over the window pointers of the Config, from
  index \<open>k\<close> on: each window is parsed where it lies, in order; the first failure ends
  the loop with the wrapped error, the windows after it not visited.
\<close>

fun parse_periods :: "parser \<Rightarrow> nat \<Rightarrow> ref list \<Rightarrow> wstore \<Rightarrow> wstore \<times> error option" where
  "parse_periods P k [] ws = (ws, None)"
| "parse_periods P k (a # as) ws =
     (case P (ws a) of
        (v', Some err) \<Rightarrow> (ws(a := v'), Some (AnalysisFailed k err))
      | (v', None) \<Rightarrow> parse_periods P (Suc k) as (ws(a := v')))"

text \<open>
  \<^verbatim>\<open>SetConfig\<close> (lines 62-79). On a failure nothing but the windows visited has been
  written. On success the name is defaulted in the submitted object and the submitted
  pointer is stored in \<^verbatim>\<open>e.cfg\<close>.
\<close>

definition Engine_SetConfig ::
  "parser \<Rightarrow> Engine \<Rightarrow> store \<Rightarrow> wstore \<Rightarrow> ref option
    \<Rightarrow> error option \<times> Engine \<times> store \<times> wstore" where
  "Engine_SetConfig P e h ws c =
     (case c of
        None \<Rightarrow> (None, e, h, ws)
      | Some p \<Rightarrow>
          (case parse_periods P 0 (Periods (h p)) ws of
             (ws', Some err) \<Rightarrow> (Some err, e, h, ws')
           | (ws', None) \<Rightarrow>
               (None, e\<lparr>cfg := Some p\<rparr>,
                h(p := (if Name (h p) = [] then (h p)\<lparr>Name := ''regular''\<rparr> else h p)),
                ws')))"

definition Engine_GetConfig :: "Engine \<Rightarrow> ref option" where
  "Engine_GetConfig e = cfg e"

text \<open>\<^verbatim>\<open>New\<close> and \<^verbatim>\<open>NewWithLogger\<close>: a zero engine, then \<^verbatim>\<open>SetConfig\<close>.\<close>

definition zero_Engine :: Engine where
  "zero_Engine = \<lparr>cfg = None, cancel = None, stopCh = NilChan\<rparr>"

definition New ::
  "parser \<Rightarrow> store \<Rightarrow> wstore \<Rightarrow> ref option \<Rightarrow> (error + Engine) \<times> store \<times> wstore" where
  "New P h ws c =
     (case Engine_SetConfig P zero_Engine h ws c of
        (Some err, e, h', ws') \<Rightarrow> (Inl err, h', ws')
      | (None, e, h', ws') \<Rightarrow> (Inr e, h', ws'))"

text \<open>
  \<^verbatim>\<open>Shutdown\<close> is \<^verbatim>\<open>close(e.stopCh)\<close>: closing a nil channel and closing a closed
  channel both panic.
\<close>

definition Engine_Shutdown :: "Engine \<Rightarrow> panic + Engine" where
  "Engine_Shutdown e =
     (case stopCh e of
        NilChan \<Rightarrow> Inl CloseOfNilChannel
      | ClosedChan \<Rightarrow> Inl CloseOfClosedChannel
      | OpenChan \<Rightarrow> Inr (e\<lparr>stopCh := ClosedChan\<rparr>))"

section \<open>A parser for the windows\<close>

text \<open>
  Modelled from the spec: \<^verbatim>\<open>Period.Parse\<close>, which regular.go calls and does not
  define. The spec gives a window as a start/end pair of ``HH:MM''-style strings and
  requires that after parsing the four integers lie in clock ranges (hours 0-23,
  minutes 0-59); a string that does not parse into such components is a configuration
  error. \<open>Period_Parse\<close> accepts digits, one colon, digits, within those ranges, and
  writes the four fields only when both strings parse. The theorems about
  \<^verbatim>\<open>SetConfig\<close> hold for every parser; this one instantiates them at concrete windows.
\<close>

definition digit_val :: "char \<Rightarrow> nat option" where
  "digit_val c = map_of (zip ''0123456789'' [0, 1, 2, 3, 4, 5, 6, 7, 8, 9]) c"

fun digits_val :: "nat \<Rightarrow> string \<Rightarrow> nat option" where
  "digits_val acc [] = Some acc"
| "digits_val acc (c # cs) =
     (case digit_val c of None \<Rightarrow> None | Some d \<Rightarrow> digits_val (10 * acc + d) cs)"

definition parse_clock :: "string \<Rightarrow> (int \<times> int) option" where
  "parse_clock s =
     (let hh = takeWhile (\<lambda>c. c \<noteq> CHR '':'') s;
          rest = dropWhile (\<lambda>c. c \<noteq> CHR '':'') s
      in if hh = [] \<or> length rest < 2 then None
         else (case (digits_val 0 hh, digits_val 0 (tl rest)) of
                 (Some h, Some m) \<Rightarrow>
                   if h < 24 \<and> m < 60 then Some (int h, int m) else None
               | _ \<Rightarrow> None))"

definition Period_Parse :: parser where
  "Period_Parse v =
     (case parse_clock (Start v) of
        None \<Rightarrow> (v, Some (Failure ''invalid start time''))
      | Some (h1, m1) \<Rightarrow>
          (case parse_clock (End v) of
             None \<Rightarrow> (v, Some (Failure ''invalid end time''))
           | Some (h2, m2) \<Rightarrow>
               (v\<lparr>startHour := h1, startMinute := m1, endHour := h2, endMinute := m2\<rparr>,
                None)))"

text \<open>A window as a caller writes it, with the parsed fields still zero.\<close>

definition window :: "string \<Rightarrow> string \<Rightarrow> Period" where
  "window s e =
     \<lparr>Start = s, End = e, startHour = 0, startMinute = 0, endHour = 0, endMinute = 0\<rparr>"

section \<open>Contexts, the shared world and the run loop\<close>

text \<open>
  A context is the chain of cancellation scopes it descends from, innermost first;
  it is done as soon as one of them has been cancelled. \<^verbatim>\<open>context.WithCancel\<close> opens a
  new scope under its parent and returns the child together with the scope to cancel.
\<close>

type_synonym ctx = "nat list"

text \<open>
  The state the goroutines share: the engine, the Config objects, the window
  objects, the scopes cancelled so far and the next unused scope.
\<close>

record world =
  eng :: Engine
  heap :: store
  windows :: wstore
  cancelled :: "nat set"
  next_scope :: nat

definition ctx_done :: "ctx \<Rightarrow> world \<Rightarrow> bool" where
  "ctx_done c w = list_ex (\<lambda>s. s \<in> cancelled w) c"

definition WithCancel :: "ctx \<Rightarrow> world \<Rightarrow> ctx \<times> nat \<times> world" where
  "WithCancel c w = (next_scope w # c, next_scope w, w\<lparr>next_scope := Suc (next_scope w)\<rparr>)"

definition fire :: "nat \<Rightarrow> world \<Rightarrow> world" where
  "fire s w = w\<lparr>cancelled := insert s (cancelled w)\<rparr>"

text \<open>
  The task is a black box: called with a context in some world, it returns an error
  or nil and leaves the world as it is when the call ends, which includes whatever the
  other goroutines (a caller replacing the Config, a cancellation) did in the
  meantime. A \<open>blocker\<close> is the same for a time this goroutine spends blocked
  (\<^verbatim>\<open>time.Sleep\<close>, \<^verbatim>\<open>select\<close>), given in milliseconds.
\<close>

type_synonym task = "ctx \<Rightarrow> world \<Rightarrow> error option \<times> world"

type_synonym blocker = "int \<Rightarrow> world \<Rightarrow> world"

text \<open>
  What the engine itself does is recorded as a trace: a task invocation, a call of
  \<^verbatim>\<open>time.Sleep\<close> with its milliseconds, the launch of a run loop for the window
  starting at the given hour and minute under the given context, the cancellation of
  a scope.
\<close>

datatype event = Invoke | Sleep int | Launch int int ctx | Cancel nat

text \<open>
  A call of the engine ends in a panic or returns an error or nil; it leaves a world
  and a trace.
\<close>

type_synonym outcome = "(panic + error option) \<times> world \<times> event list"

text \<open>
  The loop of \<^verbatim>\<open>Engine.run\<close> (lines 157-181). The first argument bounds the number
  of iterations, \<open>None\<close> meaning that the loop is still running after that many.
  \<open>cfgp\<close> is the local variable \<^verbatim>\<open>cfg\<close>: it is read through on a failure (lines 165,
  169, 171) and assigned from \<^verbatim>\<open>e.GetConfig()\<close> only after a success (line 174). The
  log lines evaluate \<^verbatim>\<open>e.cfg.Name\<close>, which needs \<^verbatim>\<open>e.cfg\<close> not to be nil.
\<close>

fun run_loop :: "nat \<Rightarrow> task \<Rightarrow> blocker \<Rightarrow> ctx \<Rightarrow> ref option \<Rightarrow> world \<Rightarrow> event list
    \<Rightarrow> outcome option" where
  "run_loop 0 T B c cfgp w tr = None"
| "run_loop (Suc n) T B c cfgp w tr =
     (if ctx_done c w then Some (Inr (Some ContextErr), w, tr)
      else
        (case T c w of
           (Some err, w1) \<Rightarrow>
             (case cfgp of
                None \<Rightarrow> Some (Inl NilDereference, w1, tr @ [Invoke])
              | Some p \<Rightarrow>
                  if FailInterval (heap w1 p) < 0 then Some (Inr (Some err), w1, tr @ [Invoke])
                  else if cfg (eng w1) = None then Some (Inl NilDereference, w1, tr @ [Invoke])
                  else run_loop n T B c cfgp (B (FailInterval (heap w1 p)) w1)
                         (tr @ [Invoke, Sleep (FailInterval (heap w1 p))]))
         | (None, w1) \<Rightarrow>
             (case Engine_GetConfig (eng w1) of
                None \<Rightarrow> Some (Inl NilDereference, w1, tr @ [Invoke])
              | Some q \<Rightarrow>
                  if SuccessInterval (heap w1 q) < 0 then Some (Inr None, w1, tr @ [Invoke])
                  else run_loop n T B c (Some q) (B (SuccessInterval (heap w1 q)) w1)
                         (tr @ [Invoke, Sleep (SuccessInterval (heap w1 q))]))))"

definition Engine_run :: "nat \<Rightarrow> task \<Rightarrow> blocker \<Rightarrow> ctx \<Rightarrow> world \<Rightarrow> event list \<Rightarrow> outcome option" where
  "Engine_run n T B c w tr = run_loop n T B c (Engine_GetConfig (eng w)) w tr"

section \<open>Start: alignment, the polling loop\<close>

text \<open>
  The wait for second 0 (lines 94-102). The clock is read once per iteration; the
  readings are an input, \<open>None\<close> meaning that none of them was 0. The log line
  evaluates \<^verbatim>\<open>e.cfg.Name\<close>.
\<close>

fun align :: "blocker \<Rightarrow> int list \<Rightarrow> world \<Rightarrow> event list
    \<Rightarrow> ((panic + unit) \<times> world \<times> event list) option" where
  "align B [] w tr = None"
| "align B (second # rest) w tr =
     (if second = 0 then Some (Inr (), w, tr)
      else if cfg (eng w) = None then Some (Inl NilDereference, w, tr)
      else align B rest (B ((60 - second) * 1000) w) (tr @ [Sleep ((60 - second) * 1000)]))"

text \<open>
  The local state of the polling loop (lines 108-152): the start of the window that
  was activated, \<open>-1\<close> for none, and the variable \<^verbatim>\<open>ctx\<close>, which line 128 overwrites
  with the child context.
\<close>

record pstate =
  currentStartHour :: int
  currentStartMinute :: int
  pctx :: ctx
  pworld :: world
  ptrace :: "event list"

text \<open>
  Lines 125-134: the window becomes the current one, a child context is made and its
  cancel function stored, the run loop is started as a goroutine under the child
  context. The goroutine runs beside the polling loop; the model records its launch,
  and what it does to the world reaches the polling loop through the blocker.
\<close>

definition launch :: "Period \<Rightarrow> pstate \<Rightarrow> pstate" where
  "launch v st =
     (case WithCancel (pctx st) (pworld st) of
        (child, s, w) \<Rightarrow>
          st\<lparr>currentStartHour := startHour v,
             currentStartMinute := startMinute v,
             pctx := child,
             pworld := w\<lparr>eng := (eng w)\<lparr>cancel := Some s\<rparr>\<rparr>,
             ptrace := ptrace st @ [Launch (startHour v) (startMinute v) child]\<rparr>)"

text \<open>Lines 138-139: \<^verbatim>\<open>e.cancel()\<close>, then \<^verbatim>\<open>e.cancel = nil\<close>.\<close>

definition stop_active :: "nat \<Rightarrow> pstate \<Rightarrow> pstate" where
  "stop_active s st =
     st\<lparr>pworld := (fire s (pworld st))\<lparr>eng := (eng (pworld st))\<lparr>cancel := None\<rparr>\<rparr>,
        ptrace := ptrace st @ [Cancel s]\<rparr>"

text \<open>
  The scan over the windows (lines 118-141), given as the window objects the pointers
  of the Config lead to; \<^verbatim>\<open>continue\<close> and the end of the body go on with the rest of
  the list, \<^verbatim>\<open>break\<close> leaves it. The scan writes to no window.
\<close>

fun scan :: "Period list \<Rightarrow> int \<Rightarrow> int \<Rightarrow> pstate \<Rightarrow> pstate" where
  "scan [] hour minute st = st"
| "scan (v # vs) hour minute st =
     (if -1 < currentStartHour st
          \<and> (currentStartHour st \<noteq> startHour v \<or> currentStartMinute st \<noteq> startMinute v)
      then scan vs hour minute st
      else
        (case CheckTime (startHour v) (startMinute v) (endHour v) (endMinute v) hour minute of
           (start, endb) \<Rightarrow>
             if start \<and> \<not> endb \<and> currentStartHour st \<noteq> startHour v then launch v st
             else
               (case cancel (eng (pworld st)) of
                  Some s \<Rightarrow>
                    if start \<and> endb then scan vs hour minute (stop_active s st)
                    else scan vs hour minute st
                | None \<Rightarrow> scan vs hour minute st)))"

text \<open>
  One iteration of the outer loop at a tick whose clock reads \<open>hour:minute\<close>: the scan
  over the windows of the live Config, then the \<^verbatim>\<open>select\<close>. The goroutine blocks for up
  to a minute; if the shutdown channel is closed by then, the active scope, if any, is
  cancelled and \<^verbatim>\<open>Start\<close> returns nil (\<open>Inl\<close>), otherwise the loop goes on (\<open>Inr\<close>).
\<close>

definition tick :: "blocker \<Rightarrow> int \<Rightarrow> int \<Rightarrow> pstate \<Rightarrow> outcome + pstate" where
  "tick B hour minute st =
     (case Engine_GetConfig (eng (pworld st)) of
        None \<Rightarrow> Inl (Inl NilDereference, pworld st, ptrace st)
      | Some p \<Rightarrow>
          (let st1 = scan (map (windows (pworld st)) (Periods (heap (pworld st) p)))
                       hour minute st;
               w2 = B 60000 (pworld st1)
           in if stopCh (eng w2) = ClosedChan then
                (case cancel (eng w2) of
                   Some s \<Rightarrow> Inl (Inr None, fire s w2, ptrace st1 @ [Cancel s])
                 | None \<Rightarrow> Inl (Inr None, w2, ptrace st1))
              else Inr (st1\<lparr>pworld := w2\<rparr>)))"

text \<open>
  The outer loop over the clock readings of successive ticks; \<open>Inr st\<close> is the loop
  still running, in state \<open>st\<close>, after the last of them.
\<close>

fun poll :: "blocker \<Rightarrow> (int \<times> int) list \<Rightarrow> pstate \<Rightarrow> outcome + pstate" where
  "poll B [] st = Inr st"
| "poll B ((hour, minute) # ticks) st =
     (case tick B hour minute st of
        Inl r \<Rightarrow> Inl r
      | Inr st' \<Rightarrow> poll B ticks st')"

definition poll_init :: "ctx \<Rightarrow> world \<Rightarrow> event list \<Rightarrow> pstate" where
  "poll_init c w tr =
     \<lparr>currentStartHour = -1, currentStartMinute = -1, pctx = c, pworld = w, ptrace = tr\<rparr>"

text \<open>
  \<^verbatim>\<open>Engine.Start\<close> (lines 91-153): a fresh shutdown channel, the alignment, then the
  run loop itself when no window is configured and the polling loop otherwise. \<open>n\<close>
  bounds the iterations of the run loop, \<open>secs\<close> are the clock readings of the
  alignment and \<open>ticks\<close> those of the polling loop; \<open>None\<close> is a \<^verbatim>\<open>Start\<close> that has not
  returned within them.
\<close>

definition Engine_Start ::
  "nat \<Rightarrow> task \<Rightarrow> blocker \<Rightarrow> int list \<Rightarrow> (int \<times> int) list \<Rightarrow> ctx \<Rightarrow> world \<Rightarrow> outcome option" where
  "Engine_Start n T B secs ticks c w =
     (case align B secs (w\<lparr>eng := (eng w)\<lparr>stopCh := OpenChan\<rparr>\<rparr>) [] of
        None \<Rightarrow> None
      | Some (Inl pn, w1, tr) \<Rightarrow> Some (Inl pn, w1, tr)
      | Some (Inr u, w1, tr) \<Rightarrow>
          (case Engine_GetConfig (eng w1) of
             None \<Rightarrow> Some (Inl NilDereference, w1, tr)
           | Some p \<Rightarrow>
               if length (Periods (heap w1 p)) = 0 then Engine_run n T B c w1 tr
               else
                 (case poll B ticks (poll_init c w1 tr) of
                    Inl r \<Rightarrow> Some r
                  | Inr st \<Rightarrow> None)))"

section \<open>Concrete inputs\<close>

text \<open>
  The objects the closed theorems below are evaluated at. Four windows lie at the
  addresses 10 to 13: 09:00-10:00, 11:00-12:00, 22:00-06:00 and one whose strings do
  not parse. \<open>cfg_day\<close> holds the first two, \<open>cfg_bad\<close> the other two, \<open>cfg_once\<close> has
  no window and both delays negative. \<open>no_Config\<close> and the empty window fill the
  addresses that play no part.
\<close>

definition no_Config :: Config where
  "no_Config = \<lparr>Name = [], Periods = [], SuccessInterval = 0, FailInterval = 0\<rparr>"

definition cfg_day :: Config where
  "cfg_day = \<lparr>Name = [], Periods = [10, 11], SuccessInterval = 1000, FailInterval = 500\<rparr>"

definition cfg_bad :: Config where
  "cfg_bad = \<lparr>Name = ''nightly'', Periods = [12, 13], SuccessInterval = 0, FailInterval = 0\<rparr>"

definition cfg_once :: Config where
  "cfg_once = \<lparr>Name = ''once'', Periods = [], SuccessInterval = -1, FailInterval = -1\<rparr>"

definition store0 :: store where
  "store0 = (\<lambda>a. no_Config)(0 := cfg_day, 1 := cfg_bad, 2 := cfg_once)"

definition wstore0 :: wstore where
  "wstore0 = (\<lambda>a. window [] [])
     (10 := window ''09:00'' ''10:00'', 11 := window ''11:00'' ''12:00'',
      12 := window ''22:00'' ''06:00'', 13 := window ''25:00'' ''26:00'')"

text \<open>
  The engine \<^verbatim>\<open>New\<close> builds on \<open>cfg_day\<close> at address 0, and the two stores as \<^verbatim>\<open>New\<close>
  leaves them.
\<close>

definition engine1 :: Engine where
  "engine1 = \<lparr>cfg = Some 0, cancel = None, stopCh = NilChan\<rparr>"

definition store1 :: store where
  "store1 = fst (snd (New Period_Parse store0 wstore0 (Some 0)))"

definition wstore1 :: wstore where
  "wstore1 = snd (snd (New Period_Parse store0 wstore0 (Some 0)))"

text \<open>
  The world of that engine: nothing cancelled, scope 0 taken by the caller's context
  \<open>[0]\<close>. \<open>world_once\<close> is the same with the engine on \<open>cfg_once\<close>.
\<close>

definition world0 :: world where
  "world0 = \<lparr>eng = engine1, heap = store1, windows = wstore1, cancelled = {},
     next_scope = 1\<rparr>"

definition world_once :: world where
  "world_once = world0\<lparr>eng := engine1\<lparr>cfg := Some 2\<rparr>\<rparr>"

text \<open>The world as the first statement of \<^verbatim>\<open>Start\<close> leaves it, the shutdown channel made.\<close>

definition world_started :: world where
  "world_started = world0\<lparr>eng := engine1\<lparr>stopCh := OpenChan\<rparr>\<rparr>"

text \<open>Nothing else happens while the engine is blocked.\<close>

definition quiet :: blocker where
  "quiet d w = w"

text \<open>A task that succeeds, and one that fails, neither touching the world.\<close>

definition task_ok :: task where
  "task_ok c w = (None, w)"

definition task_boom :: task where
  "task_boom c w = (Some (Failure ''boom''), w)"

text \<open>
  A task that fails while, during its run, the caller replaces the engine's Config by
  the one at address 2 through \<^verbatim>\<open>SetConfig\<close>.
\<close>

definition task_boom_replaced :: task where
  "task_boom_replaced c w =
     (case Engine_SetConfig Period_Parse (eng w) (heap w) (windows w) (Some 2) of
        (r, e', h', ws') \<Rightarrow>
          (Some (Failure ''boom''), w\<lparr>eng := e', heap := h', windows := ws'\<rparr>))"

text \<open>
  A task that fails while the caller, instead, writes a post-failure delay of -1 into
  the Config object at address 0, the one it shares with the engine.
\<close>

definition task_boom_edited :: task where
  "task_boom_edited c w =
     (Some (Failure ''boom''), w\<lparr>heap := (heap w)(0 := (heap w 0)\<lparr>FailInterval := -1\<rparr>)\<rparr>)"

text \<open>The clock readings of \<open>n\<close> successive minute ticks from \<open>hour:minute\<close> on.\<close>

fun clock_from :: "int \<Rightarrow> int \<Rightarrow> nat \<Rightarrow> (int \<times> int) list" where
  "clock_from hour minute 0 = []"
| "clock_from hour minute (Suc n) =
     (hour, minute) #
     (if minute = 59 then clock_from (if hour = 23 then 0 else hour + 1) 0 n
      else clock_from hour (minute + 1) n)"

text \<open>The launches in a trace.\<close>

definition launches :: "event list \<Rightarrow> event list" where
  "launches tr = filter (\<lambda>ev. case ev of Launch sh sm c \<Rightarrow> True | _ \<Rightarrow> False) tr"

section \<open>Properties of the containment check\<close>

text \<open>Saturation keeps the sign of a difference, so every comparison of \<^verbatim>\<open>CheckTime\<close>
  is a comparison of the two instants.\<close>

lemma time_Sub_zero_iff: "time_Sub t u = 0 \<longleftrightarrow> t = u"
  by (auto simp: time_Sub_def maxDuration_def minDuration_def Let_def)

lemma time_Sub_neg_iff: "time_Sub t u < 0 \<longleftrightarrow> t < u"
  by (auto simp: time_Sub_def maxDuration_def minDuration_def Let_def)

lemma time_Sub_nonneg_iff: "0 \<le> time_Sub t u \<longleftrightarrow> u \<le> t"
  by (auto simp: time_Sub_def maxDuration_def minDuration_def Let_def)

lemmas time_Sub_sign = time_Sub_zero_iff time_Sub_neg_iff time_Sub_nonneg_iff


text \<open>
  Claim C5. A window whose start instant equals its end instant reports
  \<open>start = true\<close> and \<open>end = false\<close> at every current time.
\<close>

theorem CheckTime_degenerate:
  assumes "time_Date sh sm = time_Date eh em"
  shows "CheckTime sh sm eh em ch cm
         = (True, False)"
  using assms by (simp add: CheckTime_def time_Sub_zero_iff)

text \<open>Witness for C5: the window 09:00-09:00 seen at 17:30.\<close>

theorem CheckTime_degenerate_witness:
  "time_Date 9 0 = time_Date 9 0 \<and> CheckTime 9 0 9 0 17 30 = (True, False)"
proof -
  have same: "time_Date 9 0 = time_Date 9 0" by simp
  from CheckTime_degenerate [OF same, of 17 30] same show ?thesis by simp
qed

text \<open>
  Claim C4, as the spec states it (for every window with start \<open>\<le>\<close> end,
  \<open>start = (now \<ge> startTime)\<close> and \<open>end = (now \<ge> endTime)\<close>), fails where start equals
  end: the window 09:00-09:00 reports \<open>start = true\<close> at 08:00, before its start, and
  \<open>end = false\<close> at 10:00, after its end.
\<close>

theorem CheckTime_non_wrapping_counterexample:
  "time_Date 9 0 \<le> time_Date 9 0
   \<and> fst (CheckTime 9 0 9 0 8 0) \<noteq> (time_Date 9 0 \<le> time_Date 8 0)
   \<and> snd (CheckTime 9 0 9 0 10 0) \<noteq> (time_Date 9 0 \<le> time_Date 10 0)"
  by (simp add: CheckTime_def time_Sub_zero_iff time_Date_def)

text \<open>
  Claim C4, amended. For every window whose start is strictly before its end and every
  current time, \<open>start = (now \<ge> startTime)\<close> and \<open>end = (now \<ge> endTime)\<close>; and for
  every window with start \<open>\<le>\<close> end, \<open>start \<and> end\<close> holds only when \<open>now \<ge> endTime\<close>.
\<close>

theorem CheckTime_non_wrapping:
  assumes "time_Date sh sm \<le> time_Date eh em"
  shows "(time_Date sh sm < time_Date eh em \<longrightarrow>
            CheckTime sh sm eh em ch cm
            = (time_Date sh sm \<le> time_Date ch cm,
               time_Date eh em \<le> time_Date ch cm))
         \<and> (fst (CheckTime sh sm eh em ch cm)
              \<and> snd (CheckTime sh sm eh em ch cm)
            \<longrightarrow> time_Date eh em \<le> time_Date ch cm)"
  using assms by (auto simp: CheckTime_def Let_def time_Sub_sign)

text \<open>Witness for C4: the window 09:00-17:00 seen at 18:00, where both flags are set.\<close>

theorem CheckTime_non_wrapping_witness:
  "time_Date 9 0 \<le> time_Date 17 0 \<and> time_Date 9 0 < time_Date 17 0
   \<and> CheckTime 9 0 17 0 18 0 = (True, True)
   \<and> time_Date 17 0 \<le> time_Date 18 0"
proof -
  have le: "time_Date 9 0 \<le> time_Date 17 0" by (simp add: time_Date_def)
  have lt: "time_Date 9 0 < time_Date 17 0" by (simp add: time_Date_def)
  from CheckTime_non_wrapping [OF le, of 18 0] lt
  have "CheckTime 9 0 17 0 18 0
        = (time_Date 9 0 \<le> time_Date 18 0, time_Date 17 0 \<le> time_Date 18 0)"
    by blast
  then show ?thesis by (simp add: time_Date_def)
qed

text \<open>
  Claim C3, as stated (in the wrapping case \<open>end = true\<close> iff \<open>current \<ge> end\<close>), fails:
  for the window 22:00-06:00 at 23:00 the current time is past the end instant, yet
  \<^verbatim>\<open>CheckTime\<close> returns \<open>end = false\<close>, because the wrap branch has set \<open>start\<close> and
  reset \<open>end\<close>.
\<close>

theorem CheckTime_wrapping_counterexample:
  "time_Date 6 0 < time_Date 22 0 \<and> time_Date 6 0 \<le> time_Date 23 0
   \<and> CheckTime 22 0 6 0 23 0 = (True, False)"
  by (simp add: CheckTime_def time_Sub_sign time_Date_def)

text \<open>
  Claim C3, amended. For every wrapping window (start after end) and every current
  time, \<^verbatim>\<open>CheckTime\<close> returns \<open>start = true\<close> iff \<open>current \<ge> start\<close> or \<open>current < end\<close>,
  and \<open>end = true\<close> iff \<open>end \<le> current < start\<close> (the current time has reached the end
  and the wrap branch has not set \<open>start\<close>); \<open>start\<close> and \<open>end\<close> are never both true.
\<close>

theorem CheckTime_wrapping:
  assumes "time_Date eh em < time_Date sh sm"
  shows "CheckTime sh sm eh em ch cm
         = (time_Date sh sm \<le> time_Date ch cm
              \<or> time_Date ch cm < time_Date eh em,
            time_Date eh em \<le> time_Date ch cm
              \<and> time_Date ch cm < time_Date sh sm)
         \<and> \<not> (fst (CheckTime sh sm eh em ch cm)
              \<and> snd (CheckTime sh sm eh em ch cm))"
  using assms by (auto simp: CheckTime_def Let_def time_Sub_sign)

text \<open>Witness for C3: the window 22:00-06:00 seen at 07:00, after its end.\<close>

theorem CheckTime_wrapping_witness:
  "time_Date 6 0 < time_Date 22 0 \<and> CheckTime 22 0 6 0 7 0 = (False, True)"
proof -
  have wrap: "time_Date 6 0 < time_Date 22 0" by (simp add: time_Date_def)
  from CheckTime_wrapping [OF wrap, of 7 0]
  have "CheckTime 22 0 6 0 7 0
        = (time_Date 22 0 \<le> time_Date 7 0 \<or> time_Date 7 0 < time_Date 6 0,
           time_Date 6 0 \<le> time_Date 7 0 \<and> time_Date 7 0 < time_Date 22 0)"
    by blast
  with wrap show ?thesis by (simp add: time_Date_def)
qed

section \<open>Properties of the configuration container\<close>

lemmas parse_eval = Period_Parse_def window_def parse_clock_def digit_val_def

text \<open>
  One step of the parsing loop, in a form the simplifier can use in both directions;
  the loop writes to the windows it visits only; it fails as soon as a window fails.
\<close>

lemma parse_periods_Cons:
  "parse_periods P k (a # as) ws =
     (case snd (P (ws a)) of
        Some err \<Rightarrow> (ws(a := fst (P (ws a))), Some (AnalysisFailed k err))
      | None \<Rightarrow> parse_periods P (Suc k) as (ws(a := fst (P (ws a)))))"
  by (cases "P (ws a)") (simp split: option.splits)

lemma parse_periods_frame:
  "a \<notin> set as \<Longrightarrow> fst (parse_periods P k as ws) a = ws a"
  by (induction as arbitrary: k ws)
     (auto simp: parse_periods_Cons simp del: parse_periods.simps(2) split: option.splits)


lemma parse_periods_distinct_prefix:
  assumes "distinct as" and "snd (parse_periods P k as ws) = None"
  shows "(\<forall>a\<in>set as. snd (P (ws a)) = None \<and> fst (parse_periods P k as ws) a = fst (P (ws a)))"
  using assms
proof (induction as arbitrary: k ws)
  case Nil
  then show ?case by simp
next
  case (Cons a as)
  let ?ws1 = "ws(a := fst (P (ws a)))"
  from Cons.prems have ok: "snd (P (ws a)) = None"
    and rest: "snd (parse_periods P (Suc k) as ?ws1) = None"
    by (auto simp: parse_periods_Cons simp del: parse_periods.simps(2) split: option.splits)
  from Cons.prems have d: "distinct as" "a \<notin> set as" by simp_all
  from Cons.IH [OF d(1) rest]
  have ih: "\<forall>b\<in>set as. snd (P (?ws1 b)) = None
              \<and> fst (parse_periods P (Suc k) as ?ws1) b = fst (P (?ws1 b))" .
  have "fst (parse_periods P (Suc k) as ?ws1) a = ?ws1 a"
    using d(2) by (rule parse_periods_frame)
  with ok ih d(2) show ?case
    by (auto simp: parse_periods_Cons simp del: parse_periods.simps(2))
qed

lemma parse_periods_all_ok:
  "\<forall>a\<in>set as. snd (P (ws a)) = None \<Longrightarrow> distinct as \<Longrightarrow> snd (parse_periods P k as ws) = None"
  by (induction as arbitrary: k ws)
     (auto simp: parse_periods_Cons simp del: parse_periods.simps(2) split: option.splits)



text \<open>What \<^verbatim>\<open>New\<close> leaves behind: the name defaulted at address 0, both windows parsed.\<close>

lemma store1_eval: "store1 = store0(0 := cfg_day\<lparr>Name := ''regular''\<rparr>)"
  by (simp add: store1_def New_def Engine_SetConfig_def store0_def wstore0_def cfg_day_def
      parse_eval zero_Engine_def)

lemma wstore1_eval:
  "wstore1 = wstore0(10 := (window ''09:00'' ''10:00'')\<lparr>startHour := 9, endHour := 10\<rparr>,
                     11 := (window ''11:00'' ''12:00'')\<lparr>startHour := 11, endHour := 12\<rparr>)"
  by (simp add: wstore1_def New_def Engine_SetConfig_def store0_def wstore0_def cfg_day_def
      parse_eval zero_Engine_def)

lemma New_cfg_day: "fst (New Period_Parse store0 wstore0 (Some 0)) = Inr engine1"
  by (simp add: New_def Engine_SetConfig_def store0_def wstore0_def cfg_day_def parse_eval
      zero_Engine_def engine1_def)



text \<open>
  For a Config that lists no window twice, the loop succeeds exactly when every
  window, as the caller left it, parses.
\<close>

lemma parse_periods_distinct_ok:
  assumes "distinct as"
  shows "snd (parse_periods P k as ws) = None \<longleftrightarrow> (\<forall>a\<in>set as. snd (P (ws a)) = None)"
  using parse_periods_distinct_prefix [OF assms] parse_periods_all_ok [OF _ assms] by blast

text \<open>
  Claim C10. On a Config whose windows all parse when the loop reaches them,
  \<^verbatim>\<open>SetConfig\<close> writes into the submitted objects themselves: the name \<open>regular\<close>, where
  the name is empty, into the Config at the submitted address, which is the only
  Config object that changes, and the parse results into its windows, which are the
  only windows that change (each holds what \<^verbatim>\<open>Parse\<close> makes of it, where no window is
  listed twice). It installs the submitted pointer, and \<^verbatim>\<open>GetConfig\<close> returns that same
  pointer. No Config is copied on either path, so the caller's pointer and the
  engine's denote one object.
\<close>

theorem SetConfig_in_place:
  assumes "snd (parse_periods P 0 (Periods (h p)) ws) = None"
  shows "Engine_SetConfig P e h ws (Some p)
         = (None, e\<lparr>cfg := Some p\<rparr>,
            h(p := (h p)\<lparr>Name := (if Name (h p) = [] then ''regular'' else Name (h p))\<rparr>),
            fst (parse_periods P 0 (Periods (h p)) ws))
         \<and> Engine_GetConfig (e\<lparr>cfg := Some p\<rparr>) = Some p
         \<and> (\<forall>a. a \<notin> set (Periods (h p)) \<longrightarrow>
               fst (parse_periods P 0 (Periods (h p)) ws) a = ws a)
         \<and> (distinct (Periods (h p)) \<longrightarrow>
               (\<forall>a\<in>set (Periods (h p)).
                  fst (parse_periods P 0 (Periods (h p)) ws) a = fst (P (ws a))))"
proof -
  have "Engine_SetConfig P e h ws (Some p)
         = (None, e\<lparr>cfg := Some p\<rparr>,
            h(p := (h p)\<lparr>Name := (if Name (h p) = [] then ''regular'' else Name (h p))\<rparr>),
            fst (parse_periods P 0 (Periods (h p)) ws))"
    using assms
    by (cases "parse_periods P 0 (Periods (h p)) ws") (simp add: Engine_SetConfig_def)
  moreover have "fst (parse_periods P 0 (Periods (h p)) ws) a = ws a"
    if "a \<notin> set (Periods (h p))" for a
    using that by (rule parse_periods_frame)
  moreover have "\<forall>a\<in>set (Periods (h p)).
      fst (parse_periods P 0 (Periods (h p)) ws) a = fst (P (ws a))"
    if "distinct (Periods (h p))"
    using parse_periods_distinct_prefix [OF that assms] by blast
  ultimately show ?thesis by (simp add: Engine_GetConfig_def)
qed

text \<open>
  Witness for C10: \<^verbatim>\<open>SetConfig\<close> of \<open>cfg_day\<close> (empty name, the raw windows 10 and 11)
  at address 0 on the zero engine. Afterwards the object at address 0 carries the name
  \<open>regular\<close>, the windows 10 and 11 carry their parsed fields, the Config at address 1
  and the window 12 are untouched, and \<^verbatim>\<open>GetConfig\<close> returns address 0.
\<close>

theorem SetConfig_in_place_witness:
  "snd (parse_periods Period_Parse 0 (Periods (store0 0)) wstore0) = None
   \<and> distinct (Periods (store0 0))
   \<and> (\<exists>e' h' ws'.
         Engine_SetConfig Period_Parse zero_Engine store0 wstore0 (Some 0) = (None, e', h', ws')
         \<and> Engine_GetConfig e' = Some 0
         \<and> Name (h' 0) = ''regular'' \<and> Periods (h' 0) = [10, 11]
         \<and> h' 1 = store0 1
         \<and> map startHour (map ws' [10, 11]) = [9, 11]
         \<and> map endHour (map ws' [10, 11]) = [10, 12]
         \<and> ws' 10 = fst (Period_Parse (wstore0 10))
         \<and> ws' 12 = wstore0 12)"
proof -
  have d: "distinct (Periods (store0 0))" by (simp add: store0_def cfg_day_def)
  have ok: "snd (parse_periods Period_Parse 0 (Periods (store0 0)) wstore0) = None"
    by (simp add: store0_def wstore0_def cfg_day_def parse_eval)
  from SetConfig_in_place [where h = store0 and p = 0 and P = Period_Parse and ws = wstore0
      and e = zero_Engine, OF ok] d
  have r: "Engine_SetConfig Period_Parse zero_Engine store0 wstore0 (Some 0)
        = (None, zero_Engine\<lparr>cfg := Some 0\<rparr>,
           store0(0 := (store0 0)\<lparr>Name :=
             (if Name (store0 0) = [] then ''regular'' else Name (store0 0))\<rparr>),
           fst (parse_periods Period_Parse 0 (Periods (store0 0)) wstore0))"
    and g: "Engine_GetConfig (zero_Engine\<lparr>cfg := Some 0\<rparr>) = Some 0"
    and f: "\<forall>a. a \<notin> set (Periods (store0 0)) \<longrightarrow>
               fst (parse_periods Period_Parse 0 (Periods (store0 0)) wstore0) a = wstore0 a"
    and w: "\<forall>a\<in>set (Periods (store0 0)).
               fst (parse_periods Period_Parse 0 (Periods (store0 0)) wstore0) a
               = fst (Period_Parse (wstore0 a))"
    by blast+
  from f have w12: "fst (parse_periods Period_Parse 0 (Periods (store0 0)) wstore0) 12 = wstore0 12"
    by (simp add: store0_def cfg_day_def)
  from w have w10: "fst (parse_periods Period_Parse 0 (Periods (store0 0)) wstore0) 10
      = fst (Period_Parse (wstore0 10))"
    and w11: "fst (parse_periods Period_Parse 0 (Periods (store0 0)) wstore0) 11
      = fst (Period_Parse (wstore0 11))"
    by (simp_all add: store0_def cfg_day_def)
  show ?thesis
    using ok d
    by (simp add: r g w10 w11 w12)
       (simp add: store0_def wstore0_def cfg_day_def parse_eval)
qed

text \<open>
  Claim C2, as stated (\<^verbatim>\<open>Shutdown\<close> with no \<^verbatim>\<open>Start\<close> in progress, or twice in a row,
  does not panic), fails. On the engine \<^verbatim>\<open>New\<close> returns, whose \<^verbatim>\<open>stopCh\<close> is nil,
  \<^verbatim>\<open>Shutdown\<close> panics; on an engine whose \<^verbatim>\<open>Start\<close> has made the channel, the first
  \<^verbatim>\<open>Shutdown\<close> closes it and the second panics.
\<close>

theorem Shutdown_counterexample:
  "fst (New Period_Parse store0 wstore0 (Some 0)) = Inr engine1
   \<and> Engine_Shutdown engine1 = Inl CloseOfNilChannel
   \<and> Engine_Shutdown (engine1\<lparr>stopCh := OpenChan\<rparr>) = Inr (engine1\<lparr>stopCh := ClosedChan\<rparr>)
   \<and> Engine_Shutdown (engine1\<lparr>stopCh := ClosedChan\<rparr>) = Inl CloseOfClosedChannel"
  using New_cfg_day by (simp add: Engine_Shutdown_def engine1_def)

text \<open>
  Claim C2, amended. \<^verbatim>\<open>Shutdown\<close> returns without a panic exactly when the shutdown
  signal is open, that is, a \<^verbatim>\<open>Start\<close> has created it and no \<^verbatim>\<open>Shutdown\<close> has closed it
  since; it then closes the signal and changes nothing else. Closing a channel does
  not block, so a call either returns or panics.
\<close>

theorem Shutdown_once:
  "Engine_Shutdown e = Inr e' \<longleftrightarrow> stopCh e = OpenChan \<and> e' = e\<lparr>stopCh := ClosedChan\<rparr>"
  by (auto simp: Engine_Shutdown_def split: chan.splits)

text \<open>Witness for C2: one \<^verbatim>\<open>Shutdown\<close> on an engine whose channel \<^verbatim>\<open>Start\<close> has made.\<close>

theorem Shutdown_once_witness:
  "Engine_Shutdown (engine1\<lparr>stopCh := OpenChan\<rparr>) = Inr (engine1\<lparr>stopCh := ClosedChan\<rparr>)"
  using Shutdown_once [of "engine1\<lparr>stopCh := OpenChan\<rparr>" "engine1\<lparr>stopCh := ClosedChan\<rparr>"]
  by simp

section \<open>Properties of the run loop\<close>

lemma world_once_cfg: "heap world_once 2 = cfg_once" "cfg (eng world_once) = Some 2"
  by (simp_all add: world_once_def world0_def store1_eval store0_def)

lemma world_once_live: "\<not> ctx_done [0] world_once"
  by (simp add: ctx_done_def world_once_def world0_def)

text \<open>
  Claim C8. Whenever a task invocation fails and the post-failure delay of the Config
  the loop holds (its variable \<^verbatim>\<open>cfg\<close>, read when the failure is handled) is negative,
  the loop returns that task's error at once: the world is as the invocation left it,
  and the trace has grown by that one invocation, with no sleep and no further
  invocation. The invocation takes place because the context is not done at the head
  of the iteration.
\<close>

theorem run_loop_fatal_failure:
  assumes "\<not> ctx_done c w" and "T c w = (Some err, w1)" and "FailInterval (heap w1 p) < 0"
  shows "run_loop (Suc n) T B c (Some p) w tr = Some (Inr (Some err), w1, tr @ [Invoke])"
  using assms by simp

text \<open>Witness for C8: a failing task under the Config \<open>cfg_once\<close>, whose post-failure
  delay is -1.\<close>

theorem run_loop_fatal_failure_witness:
  "\<not> ctx_done [0] world_once
   \<and> task_boom [0] world_once = (Some (Failure ''boom''), world_once)
   \<and> FailInterval (heap world_once 2) < 0
   \<and> run_loop (Suc 0) task_boom quiet [0] (Some 2) world_once []
     = Some (Inr (Some (Failure ''boom'')), world_once, [Invoke])"
proof -
  have t: "task_boom [0] world_once = (Some (Failure ''boom''), world_once)"
    by (simp add: task_boom_def)
  have f: "FailInterval (heap world_once 2) < 0"
    by (simp add: world_once_cfg cfg_once_def)
  from run_loop_fatal_failure [where T = task_boom and B = quiet and n = 0 and tr = "[]",
      OF world_once_live t f] world_once_live t f
  show ?thesis by simp
qed

text \<open>
  With a task that fails at every invocation while the Config at address 0 keeps a
  post-failure delay of 500, the loop that holds the pointer to address 0 does not
  return, whatever Config the engine itself points to.
\<close>

lemma run_loop_stale:
  assumes "heap w 0 = heap world0 0" and "heap w 2 = cfg_once" and "cancelled w = {}"
  shows "run_loop n task_boom_replaced quiet [0] (Some 0) w tr = None"
  using assms
proof (induction n arbitrary: w tr)
  case 0
  then show ?case by simp
next
  case (Suc n)
  obtain w1 where t: "task_boom_replaced [0] w = (Some (Failure ''boom''), w1)"
    by (cases "Engine_SetConfig Period_Parse (eng w) (heap w) (windows w) (Some 2)")
       (simp add: task_boom_replaced_def)
  have w1: "heap w1 0 = heap world0 0" "heap w1 2 = cfg_once" "cancelled w1 = {}"
    "cfg (eng w1) = Some 2"
    using Suc.prems t
    by (auto simp: task_boom_replaced_def Engine_SetConfig_def cfg_once_def)
  have "FailInterval (heap w1 0) = 500"
    by (simp add: w1 world0_def store1_eval cfg_day_def)
  moreover have "\<not> ctx_done [0] w" using Suc.prems by (simp add: ctx_done_def)
  ultimately have "run_loop (Suc n) task_boom_replaced quiet [0] (Some 0) w tr
      = run_loop n task_boom_replaced quiet [0] (Some 0) w1 (tr @ [Invoke, Sleep 500])"
    using t w1(4) by (simp add: quiet_def)
  with Suc.IH [OF w1(1,2,3)] show ?case by simp
qed

text \<open>
  Claim C7 does not hold of the code. The engine runs on the Config at address 0
  (post-failure delay 500). The task fails at every invocation, and during its first
  run the caller replaces the Config through \<^verbatim>\<open>SetConfig\<close> by the one at address 2
  (post-failure delay -1). From then on the live Config says ``do not retry'', yet the
  loop never returns, however many iterations it is given: on the failure path it
  keeps reading the delay through the pointer it fetched before the first invocation.
\<close>

theorem run_ignores_replaced_Config:
  "Engine_GetConfig (eng world0) = Some 0
   \<and> FailInterval (heap world0 0) = 500
   \<and> fst (task_boom_replaced [0] world0) = Some (Failure ''boom'')
   \<and> Engine_GetConfig (eng (snd (task_boom_replaced [0] world0))) = Some 2
   \<and> FailInterval (heap (snd (task_boom_replaced [0] world0)) 2) = -1
   \<and> (\<forall>n. Engine_run n task_boom_replaced quiet [0] world0 [] = None)"
proof -
  have h2: "heap world0 2 = cfg_once" by (simp add: world0_def store1_eval store0_def)
  have "run_loop n task_boom_replaced quiet [0] (Some 0) world0 [] = None" for n
    by (rule run_loop_stale) (simp_all add: h2, simp add: world0_def)
  then show ?thesis
    by (simp add: Engine_run_def Engine_GetConfig_def task_boom_replaced_def
        Engine_SetConfig_def h2 cfg_once_def)
       (simp add: world0_def engine1_def store1_eval cfg_day_def)
qed

text \<open>
  The same failure is fatal when the caller changes the delay in the shared object
  instead of replacing the Config: the pointer the loop holds then leads to the new
  value.
\<close>

lemma run_sees_edited_Config:
  "Engine_run (Suc n) task_boom_edited quiet [0] world0 []
   = Some (Inr (Some (Failure ''boom'')), snd (task_boom_edited [0] world0), [Invoke])"
  by (simp add: Engine_run_def Engine_GetConfig_def task_boom_edited_def ctx_done_def
      world0_def engine1_def)

section \<open>Properties of Start\<close>

lemma align_quiet:
  assumes "\<forall>d v. B d v = v" and "cfg (eng w) \<noteq> None" and "0 \<in> set secs"
  shows "\<exists>tr'. align B secs w tr = Some (Inr (), w, tr @ tr') \<and> Invoke \<notin> set tr'"
  using assms(3)
proof (induction secs arbitrary: tr)
  case Nil
  then show ?case by simp
next
  case (Cons s secs)
  show ?case
  proof (cases "s = 0")
    case True
    then show ?thesis by simp
  next
    case False
    with Cons.prems have "0 \<in> set secs" by simp
    from Cons.IH [OF this, of "tr @ [Sleep ((60 - s) * 1000)]"] obtain tr' where
      "align B secs w (tr @ [Sleep ((60 - s) * 1000)])
       = Some (Inr (), w, (tr @ [Sleep ((60 - s) * 1000)]) @ tr')" "Invoke \<notin> set tr'"
      by blast
    moreover have "B ((60 - s) * 1000) w = w" using assms(1) by blast
    ultimately show ?thesis
      using False assms(2) by (intro exI [of _ "Sleep ((60 - s) * 1000) # tr'"]) simp
  qed
qed

text \<open>
  Claim C9. With no window configured, a post-success delay of -1 and a task that
  always succeeds, \<^verbatim>\<open>Start\<close> returns nil and the trace holds exactly one invocation.
  The setting of the scenario is made explicit: the context handed to \<^verbatim>\<open>Start\<close> is not
  already done, nothing else touches the engine's world while the task runs or the
  engine sleeps, and the clock shows second 0 at one of the readings of the alignment.
  One iteration of the run loop is enough.
\<close>

theorem Start_one_shot:
  assumes "cfg (eng w) = Some p" and "Periods (heap w p) = []"
    and "SuccessInterval (heap w p) = -1"
    and "\<not> ctx_done c w"
    and "\<And>c' v. T c' v = (None, v)"
    and "\<And>d v. B d v = v"
    and "0 \<in> set secs"
  shows "\<exists>tr. Engine_Start (Suc n) T B secs ticks c w
               = Some (Inr None, w\<lparr>eng := (eng w)\<lparr>stopCh := OpenChan\<rparr>\<rparr>, tr)
             \<and> count_list tr Invoke = 1"
proof -
  let ?w = "w\<lparr>eng := (eng w)\<lparr>stopCh := OpenChan\<rparr>\<rparr>"
  have "cfg (eng ?w) \<noteq> None" using assms(1) by simp
  moreover have "\<forall>d v. B d v = v" using assms(6) by blast
  ultimately obtain tr' where
    al: "align B secs ?w [] = Some (Inr (), ?w, tr')" "Invoke \<notin> set tr'"
    using align_quiet [where B = B and w = ?w and secs = secs and tr = "[]"] assms(7)
    by auto
  have live: "\<not> ctx_done c ?w" using assms(4) by (simp add: ctx_done_def)
  have "T c ?w = (None, ?w)" by (rule assms(5))
  then have "Engine_run (Suc n) T B c ?w tr' = Some (Inr None, ?w, tr' @ [Invoke])"
    using assms(1,3) live by (simp add: Engine_run_def Engine_GetConfig_def)
  with al assms(1,2) have "Engine_Start (Suc n) T B secs ticks c w
      = Some (Inr None, ?w, tr' @ [Invoke])"
    by (simp add: Engine_Start_def Engine_GetConfig_def)
  moreover have "count_list (tr' @ [Invoke]) Invoke = 1"
    using al(2) by (simp add: count_list_0_iff)
  ultimately show ?thesis by blast
qed

text \<open>Witness for C9: the engine on \<open>cfg_once\<close>, started at second 42 of a minute.\<close>

theorem Start_one_shot_witness:
  "cfg (eng world_once) = Some 2 \<and> Periods (heap world_once 2) = []
   \<and> SuccessInterval (heap world_once 2) = -1
   \<and> \<not> ctx_done [0] world_once
   \<and> (\<forall>c v. task_ok c v = (None, v))
   \<and> (\<forall>d v. quiet d v = v)
   \<and> 0 \<in> set [42, 0 :: int]
   \<and> (\<exists>tr. Engine_Start (Suc 0) task_ok quiet [42, 0] [] [0] world_once
         = Some (Inr None, world_once\<lparr>eng := (eng world_once)\<lparr>stopCh := OpenChan\<rparr>\<rparr>, tr)
        \<and> count_list tr Invoke = 1)"
proof -
  have a: "Periods (heap world_once 2) = []" "SuccessInterval (heap world_once 2) = -1"
    by (simp_all add: world_once_cfg cfg_once_def)
  have t: "task_ok c v = (None, v)" for c v by (simp add: task_ok_def)
  have q: "quiet d v = v" for d v by (simp add: quiet_def)
  have z: "0 \<in> set [42, 0 :: int]" by simp
  from Start_one_shot [of world_once 2 "[0]" task_ok quiet "[42, 0]" 0 "[]",
      OF world_once_cfg(2) a world_once_live t q z]
  show ?thesis using world_once_cfg(2) a world_once_live t q by simp
qed

section \<open>Properties of the polling loop\<close>

text \<open>
  Once a window with a start hour of 0 or more has been activated, the two variables
  \<^verbatim>\<open>currentStartHour\<close> and \<^verbatim>\<open>currentStartMinute\<close> are never written again: every other
  window is skipped by line 119, and the window itself fails the test of line 124. So
  no later tick launches anything, whatever the windows, the clock and the other
  goroutines do.
\<close>

lemma launches_simps [simp]:
  "launches [] = []"
  "launches (tr @ tr') = launches tr @ launches tr'"
  "launches (Cancel s # tr) = launches tr"
  "launches (Launch sh sm c # tr) = Launch sh sm c # launches tr"
  "launches (Invoke # tr) = launches tr"
  "launches (Sleep d # tr) = launches tr"
  by (simp_all add: launches_def)

lemma scan_keeps_current:
  "-1 < currentStartHour st \<Longrightarrow>
     currentStartHour (scan vs hour minute st) = currentStartHour st
     \<and> launches (ptrace (scan vs hour minute st)) = launches (ptrace st)"
proof (induction vs arbitrary: st)
  case Nil
  then show ?case by simp
next
  case (Cons v vs)
  have stop: "-1 < currentStartHour (stop_active s st)" for s
    using Cons.prems by (simp add: stop_active_def)
  show ?case
    using Cons.prems Cons.IH [OF Cons.prems] Cons.IH [OF stop]
    by (auto simp: stop_active_def split: prod.splits option.splits)
qed

lemma tick_keeps_current:
  assumes "-1 < currentStartHour st"
  shows "case tick B hour minute st of
           Inl (r, w, tr) \<Rightarrow> launches tr = launches (ptrace st)
         | Inr st' \<Rightarrow> currentStartHour st' = currentStartHour st
                      \<and> launches (ptrace st') = launches (ptrace st)"
  using scan_keeps_current [OF assms]
  by (auto simp: tick_def Let_def split: option.splits)

lemma poll_keeps_current:
  "-1 < currentStartHour st \<Longrightarrow>
     (case poll B ticks st of
        Inl (r, w, tr) \<Rightarrow> launches tr = launches (ptrace st)
      | Inr st' \<Rightarrow> currentStartHour st' = currentStartHour st
                   \<and> launches (ptrace st') = launches (ptrace st))"
proof (induction ticks arbitrary: st)
  case Nil
  then show ?case by simp
next
  case (Cons t ticks)
  obtain hour minute where t: "t = (hour, minute)" by (cases t)
  show ?case
  proof (cases "tick B hour minute st")
    case (Inl r)
    with tick_keeps_current [OF Cons.prems, of B hour minute] t show ?thesis by simp
  next
    case (Inr st1)
    with tick_keeps_current [OF Cons.prems, of B hour minute]
    have st1: "currentStartHour st1 = currentStartHour st"
      "launches (ptrace st1) = launches (ptrace st)" by simp_all
    with Cons.prems have "-1 < currentStartHour st1" by simp
    from Cons.IH [OF this] st1 Inr t show ?thesis
      by (auto split: sum.splits)
  qed
qed

text \<open>
  \<^verbatim>\<open>Start\<close> on the engine of \<open>world0\<close>, entered at second 0, is the polling loop from its
  initial state in \<open>world_started\<close>.
\<close>

lemma Start_polls:
  "Engine_Start n T quiet [0] ticks [0] world0
   = (case poll quiet ticks (poll_init [0] world_started []) of
        Inl r \<Rightarrow> Some r
      | Inr st \<Rightarrow> None)"
  by (simp add: Engine_Start_def Engine_GetConfig_def world_started_def world0_def
      engine1_def store1_eval cfg_day_def)

text \<open>
  Claim C1 does not hold of the code. The engine runs on \<open>cfg_day\<close> (windows
  09:00-10:00 and 11:00-12:00) and is polled at every minute from 09:00 to 11:59 while
  nothing else happens. At 09:00 the first window is launched under the context
  \<open>[1, 0]\<close>; at 10:00 its check reports \<open>start \<and> end\<close>, scope 1 is cancelled and
  \<^verbatim>\<open>e.cancel\<close> is cleared. \<^verbatim>\<open>currentStartHour\<close> and \<^verbatim>\<open>currentStartMinute\<close> still hold
  09:00, so at 11:00, where the check of the second window reports
  \<open>start \<and> \<not> end\<close>, and at every later tick the second window is skipped: the trace
  after the three hours holds the one launch. The variable \<^verbatim>\<open>ctx\<close> is still the
  cancelled child \<open>[1, 0]\<close> as well.
\<close>

theorem poll_misses_next_window:
  "poll quiet (clock_from 9 0 180) (poll_init [0] world_started [])
   = Inr \<lparr>currentStartHour = 9, currentStartMinute = 0, pctx = [1, 0],
          pworld = world_started\<lparr>cancelled := {1}, next_scope := 2\<rparr>,
          ptrace = [Launch 9 0 [1, 0], Cancel 1]\<rparr>
   \<and> CheckTime 11 0 12 0 11 0 = (True, False)
   \<and> ctx_done [1, 0] (world_started\<lparr>cancelled := {1}, next_scope := 2\<rparr>)"
  by (simp add: poll_init_def tick_def quiet_def Engine_GetConfig_def world_started_def
      world0_def store1_eval wstore1_eval cfg_day_def engine1_def window_def CheckTime_def
      time_Sub_sign time_Date_def launch_def WithCancel_def stop_active_def fire_def
      ctx_done_def eval_nat_numeral)


end
